theory Spec2Isabelle
  imports Complex_Main "HOL-Library.Char_ord" "HOL-Library.List_Lexorder"
begin

section \<open>Warehouse co-placement recommender: a shallow embedding\<close>

text \<open>
  The Python sources are embedded function by function. Conventions:
  \<^item> a pandas table is the list of its rows; a stock code or an invoice number is a
    \<open>string\<close>, ordered lexicographically as Python orders \<open>str\<close>;
  \<^item> Python \<open>int\<close> is \<open>int\<close>, \<open>len\<close> is \<open>nat\<close>;
  \<^item> a Python/numpy float is a \<open>real\<close>: rounding, \<open>nan\<close> and \<open>inf\<close> are outside
    the model;
  \<^item> an exception is the \<open>Inl\<close> branch of a sum; attributes of \<open>self\<close> are a record
    that the function takes and returns;
  \<^item> \<open>print\<close> calls are dropped.
\<close>

datatype error = ValueError string | ZeroDivisionError | AttributeError

subsection \<open>Helpers for pandas and Python primitives\<close>

text \<open>\<open>Series.unique()\<close>: the distinct values in order of first appearance.\<close>

definition unique :: "'a list \<Rightarrow> 'a list" where
  "unique xs = rev (remdups (rev xs))"

text \<open>
  \<open>Series.value_counts()\<close>: one entry per distinct value with the number of rows that
  hold it, by descending count. pandas leaves the order among equal counts open; here
  ties keep the order of first appearance. Nothing below depends on that order.
\<close>

definition value_counts :: "'a list \<Rightarrow> ('a \<times> nat) list" where
  "value_counts xs =
     sort_key (\<lambda>pc. - int (snd pc)) (map (\<lambda>p. (p, count_list xs p)) (unique xs))"

text \<open>
  Python's \<open>xs[:n]\<close> and pandas' \<open>head(n)\<close>: the first \<open>n\<close> entries when \<open>n \<ge> 0\<close>,
  all but the last \<open>|n|\<close> entries when \<open>n < 0\<close>.
\<close>

definition py_head :: "int \<Rightarrow> 'a list \<Rightarrow> 'a list" where
  "py_head n xs = (if 0 \<le> n then take (nat n) xs else take (length xs - nat (- n)) xs)"

text \<open>
  \<open>list.sort(key=k, reverse=True)\<close>: descending by key; Python's sort keeps the original
  order of equal keys also when reversed.
\<close>

definition sort_desc :: "('a \<Rightarrow> real) \<Rightarrow> 'a list \<Rightarrow> 'a list" where
  "sort_desc k xs = sort_key (\<lambda>x. - k x) xs"

text \<open>
  \<open>Series.sort_values(ascending=False)\<close>: pandas sorts ascending and reverses the result,
  so equal values come out in reverse index order. (On long inputs the default sort kind
  does not fix the order of equal values.)
\<close>

definition sort_values_desc :: "('a \<Rightarrow> real) \<Rightarrow> 'a list \<Rightarrow> 'a list" where
  "sort_values_desc k xs = rev (sort_key k xs)"

definition sorted_desc :: "real list \<Rightarrow> bool" where
  "sorted_desc xs = sorted (map uminus xs)"

subsection \<open>market_basket_analyzer.py\<close>

text \<open>A line item of the transaction table; only the two columns the analyzer reads.\<close>

record transaction =
  InvoiceNo :: string
  StockCode :: string

text \<open>The binary basket matrix: a \<open>DataFrame\<close> with product columns and one row per kept basket.\<close>

record basket_matrix =
  bm_columns :: "string list"
  bm_rows :: "int list list"

record market_basket_analyzer =
  mba_basket_matrix :: "basket_matrix option"
  mba_frequent_products :: "string list option"

text \<open>
  \<open>df.groupby('InvoiceNo')['StockCode'].apply(list)\<close>: one group per invoice, groups by
  ascending key, each group the stock codes of its line items in table order.
\<close>

definition groupby_invoice :: "transaction list \<Rightarrow> (string \<times> string list) list" where
  "groupby_invoice df =
     map (\<lambda>k. (k, map StockCode (filter (\<lambda>r. InvoiceNo r = k) df)))
         (sort (remdups (map InvoiceNo df)))"

text \<open>\<open>product_counts[product_counts >= min_support].index.tolist()\<close>\<close>

definition frequent_products :: "transaction list \<Rightarrow> int \<Rightarrow> string list" where
  "frequent_products df min_support =
     map fst (filter (\<lambda>pc. min_support \<le> int (snd pc)) (value_counts (map StockCode df)))"

text \<open>The first loop: baskets filtered to frequent products, kept when \<open>len(...) > 1\<close>.\<close>

definition basket_data :: "transaction list \<Rightarrow> int \<Rightarrow> (string \<times> string list) list" where
  "basket_data df min_support =
     filter (\<lambda>b. 1 < length (snd b))
       (map (\<lambda>row. (fst row, filter (\<lambda>p. p \<in> set (frequent_products df min_support)) (snd row)))
            (groupby_invoice df))"

definition all_products :: "transaction list \<Rightarrow> int \<Rightarrow> string list" where
  "all_products df min_support = sort (frequent_products df min_support)"

text \<open>The second loop: one 0/1 row per kept basket over the sorted product columns.\<close>

definition matrix_data :: "transaction list \<Rightarrow> int \<Rightarrow> int list list" where
  "matrix_data df min_support =
     map (\<lambda>basket. map (\<lambda>product. if product \<in> set (snd basket) then 1 else 0)
                        (all_products df min_support))
         (basket_data df min_support)"

text \<open>
  \<open>create_market_baskets\<close> stores the frequent products and the matrix in the analyzer and
  returns the matrix. The source has no \<open>raise\<close> on this path, so the model has no \<open>Inl\<close>
  branch.
\<close>

definition create_market_baskets ::
  "market_basket_analyzer \<Rightarrow> transaction list \<Rightarrow> int
     \<Rightarrow> error + (basket_matrix \<times> market_basket_analyzer)" where
  "create_market_baskets self df min_support =
     (let m = \<lparr>bm_columns = all_products df min_support,
                bm_rows = matrix_data df min_support\<rparr>
      in Inr (m, self\<lparr>mba_basket_matrix := Some m,
                      mba_frequent_products := Some (frequent_products df min_support)\<rparr>))"

text \<open>The number of orders (invoices) in which a product appears: its support.\<close>

definition order_count :: "transaction list \<Rightarrow> string \<Rightarrow> nat" where
  "order_count df p =
     length (filter (\<lambda>g. p \<in> set (snd g)) (groupby_invoice df))"

text \<open>
  The number of line items of an order whose product is on at least \<open>min_support\<close> line
  items of the table: what the order retains after filtering to frequent products.
\<close>

definition frequent_line_items :: "transaction list \<Rightarrow> int \<Rightarrow> string \<Rightarrow> nat" where
  "frequent_line_items df min_support invoice =
     length (filter (\<lambda>r. InvoiceNo r = invoice
                          \<and> min_support \<le> int (count_list (map StockCode df) (StockCode r))) df)"

text \<open>No order lists the same product on two line items.\<close>

definition no_repeated_items :: "transaction list \<Rightarrow> bool" where
  "no_repeated_items df = list_all (\<lambda>g. distinct (snd g)) (groupby_invoice df)"

text \<open>The number of cells of a matrix row that are set to 1.\<close>

definition set_cells :: "int list \<Rightarrow> nat" where
  "set_cells row = length (filter (\<lambda>c. c = 1) row)"

definition tx :: "string \<Rightarrow> string \<Rightarrow> transaction" where
  "tx i p = \<lparr>InvoiceNo = i, StockCode = p\<rparr>"

definition new_analyzer :: market_basket_analyzer where
  "new_analyzer = \<lparr>mba_basket_matrix = None, mba_frequent_products = None\<rparr>"

text \<open>The scenario table: O1={A,B}, O2={A,B,C}, O3={A,B}, O4={C,D}.\<close>

definition scenario_df :: "transaction list" where
  "scenario_df =
     [tx ''O1'' ''A'', tx ''O1'' ''B'',
      tx ''O2'' ''A'', tx ''O2'' ''B'', tx ''O2'' ''C'',
      tx ''O3'' ''A'', tx ''O3'' ''B'',
      tx ''O4'' ''C'', tx ''O4'' ''D'']"

subsection \<open>similarity_calculator.py\<close>

text \<open>
  The similarity matrix: a \<open>DataFrame\<close> whose index and columns are both the product
  columns of the basket matrix.
\<close>

record similarity_matrix =
  sim_index :: "string list"
  sim_values :: "real list list"

record similarity_calculator =
  sc_similarity_matrix :: "similarity_matrix option"
  sc_basket_matrix :: "basket_matrix option"

text \<open>
  \<open>basket_matrix[prod]\<close>: the column of a product. The columns of a basket matrix are
  distinct labels (the sorted index of \<open>value_counts\<close>), so the column of the \<open>i\<close>-th
  label is the \<open>i\<close>-th cell of every row.
\<close>

definition column :: "basket_matrix \<Rightarrow> nat \<Rightarrow> int list" where
  "column bm i = map (\<lambda>r. r ! i) (bm_rows bm)"

text \<open>\<open>np.zeros((n, n))\<close> and the assignment \<open>M[i, j] = v\<close>.\<close>

definition zeros :: "nat \<Rightarrow> real list list" where
  "zeros n = replicate n (replicate n 0)"

definition set_cell :: "real list list \<Rightarrow> nat \<Rightarrow> nat \<Rightarrow> real \<Rightarrow> real list list" where
  "set_cell M i j v = M[i := (M ! i)[j := v]]"

text \<open>\<open>((c1 == 1) & (c2 == 1)).sum()\<close> and \<open>((c1 == 1) | (c2 == 1)).sum()\<close>\<close>

definition count_both :: "int list \<Rightarrow> int list \<Rightarrow> nat" where
  "count_both c1 c2 = length (filter (\<lambda>ab. fst ab = 1 \<and> snd ab = 1) (zip c1 c2))"

definition count_either :: "int list \<Rightarrow> int list \<Rightarrow> nat" where
  "count_either c1 c2 = length (filter (\<lambda>ab. fst ab = 1 \<or> snd ab = 1) (zip c1 c2))"

text \<open>The value computed in the body of the Jaccard loop for the pair \<open>(i, j)\<close>.\<close>

definition jaccard_sim :: "basket_matrix \<Rightarrow> nat \<Rightarrow> nat \<Rightarrow> real" where
  "jaccard_sim bm i j =
     (let intersection = count_both (column bm i) (column bm j);
          union = count_either (column bm i) (column bm j)
      in if 0 < union then real intersection / real union else 0)"

text \<open>
  Both pairwise metrics run the same double loop over \<open>enumerate(products)\<close>: for
  \<open>i \<le> j\<close> the value is computed once and written to \<open>[i, j]\<close> and to \<open>[j, i]\<close>.
\<close>

definition pair_step :: "(nat \<Rightarrow> nat \<Rightarrow> real) \<Rightarrow> nat \<Rightarrow> nat \<Rightarrow> real list list \<Rightarrow> real list list" where
  "pair_step f i j M =
     (if i \<le> j then set_cell (set_cell M i j (f i j)) j i (f i j) else M)"

definition pair_loop :: "(nat \<Rightarrow> nat \<Rightarrow> real) \<Rightarrow> nat \<Rightarrow> real list list" where
  "pair_loop f n =
     fold (\<lambda>i M. fold (\<lambda>j M'. pair_step f i j M') [0..<n] M) [0..<n] (zeros n)"

definition calculate_jaccard_similarity :: "basket_matrix \<Rightarrow> real list list" where
  "calculate_jaccard_similarity bm =
     pair_loop (jaccard_sim bm) (length (bm_columns bm))"

text \<open>
  \<open>cosine_similarity(basket_matrix.T)\<close> is scikit-learn's. Its input check rejects an
  array without samples (no product column) or without features (no basket row) with a
  \<open>ValueError\<close>; the message is shortened here. Otherwise every product vector is divided
  by its Euclidean norm (a zero vector is left as it is), and the result is the matrix of
  dot products of the normalised vectors.
\<close>

definition dot :: "real list \<Rightarrow> real list \<Rightarrow> real" where
  "dot xs ys = sum_list (map (\<lambda>ab. fst ab * snd ab) (zip xs ys))"

definition normalize :: "real list \<Rightarrow> real list" where
  "normalize xs =
     (let norm = sqrt (dot xs xs)
      in map (\<lambda>x. x / (if norm = 0 then 1 else norm)) xs)"

definition cosine_gram :: "basket_matrix \<Rightarrow> real list list" where
  "cosine_gram bm =
     (let X = map (\<lambda>i. normalize (map real_of_int (column bm i)))
                  [0..<length (bm_columns bm)]
      in map (\<lambda>x. map (\<lambda>y. dot x y) X) X)"

definition calculate_cosine_similarity :: "basket_matrix \<Rightarrow> error + real list list" where
  "calculate_cosine_similarity bm =
     (if bm_columns bm = [] then Inl (ValueError ''Found array with 0 sample(s)'')
      else if bm_rows bm = [] then Inl (ValueError ''Found array with 0 feature(s)'')
      else Inr (cosine_gram bm))"

text \<open>
  The lift metric. \<open>support[product] = column.sum() / n_transactions\<close> is computed for
  every product before the loop; with no rows that quotient is \<open>0 / 0\<close>, which
  raises. In the loop \<open>support[prod2] > 0\<close> guards the second division.
\<close>

definition support :: "basket_matrix \<Rightarrow> nat \<Rightarrow> real" where
  "support bm i = real_of_int (sum_list (column bm i)) / real (length (bm_rows bm))"

definition lift_sim :: "basket_matrix \<Rightarrow> nat \<Rightarrow> nat \<Rightarrow> real" where
  "lift_sim bm i j =
     (let both = count_both (column bm i) (column bm j);
          confidence_1_2 = (if 0 < sum_list (column bm i)
                            then real both / real_of_int (sum_list (column bm i)) else 0);
          lift = (if 0 < support bm j then confidence_1_2 / support bm j else 0)
      in if 0 < lift then max 0 (min 1 ((lift - 1) / 10 + 0.5)) else 0)"

definition calculate_lift_similarity :: "basket_matrix \<Rightarrow> error + real list list" where
  "calculate_lift_similarity bm =
     (if bm_columns bm \<noteq> [] \<and> bm_rows bm = [] then Inl ZeroDivisionError
      else Inr (pair_loop (lift_sim bm) (length (bm_columns bm))))"

text \<open>
  \<open>calculate_similarity_matrix\<close> first stores the basket matrix, then dispatches on the
  metric; an unknown metric raises \<open>ValueError\<close>. The calculator after the call is
  returned in both cases.
\<close>

definition calculate_similarity_matrix ::
  "similarity_calculator \<Rightarrow> basket_matrix \<Rightarrow> string
     \<Rightarrow> (error + similarity_matrix) \<times> similarity_calculator" where
  "calculate_similarity_matrix self bm metric =
     (let self1 = self\<lparr>sc_basket_matrix := Some bm\<rparr>;
          computed =
            (if metric = ''jaccard'' then Inr (calculate_jaccard_similarity bm)
             else if metric = ''cosine'' then calculate_cosine_similarity bm
             else if metric = ''lift'' then calculate_lift_similarity bm
             else Inl (ValueError (''Unknown similarity metric: '' @ metric)))
      in case computed of
           Inl e \<Rightarrow> (Inl e, self1)
         | Inr vs \<Rightarrow>
             (let m = \<lparr>sim_index = bm_columns bm, sim_values = vs\<rparr>
              in (Inr m, self1\<lparr>sc_similarity_matrix := Some m\<rparr>)))"

definition new_calculator :: similarity_calculator where
  "new_calculator = \<lparr>sc_similarity_matrix = None, sc_basket_matrix = None\<rparr>"

text \<open>A matrix is symmetric on its first \<open>n\<close> rows and columns.\<close>

definition symmetric_upto :: "nat \<Rightarrow> real list list \<Rightarrow> bool" where
  "symmetric_upto n M = (\<forall>i<n. \<forall>j<n. M ! i ! j = M ! j ! i)"

definition square :: "nat \<Rightarrow> real list list \<Rightarrow> bool" where
  "square n M = (length M = n \<and> (\<forall>i<n. length (M ! i) = n))"

definition scenario_matrix :: basket_matrix where
  "scenario_matrix =
     \<lparr>bm_columns = [''A'', ''B'', ''C'', ''D''],
      bm_rows = [[1, 1, 0, 0], [1, 1, 1, 0], [1, 1, 0, 0], [0, 0, 1, 1]]\<rparr>"

text \<open>\<open>np.mean\<close>, \<open>np.median\<close> and \<open>np.std\<close> (population form) of a non-empty array.\<close>

definition mean :: "real list \<Rightarrow> real" where
  "mean xs = sum_list xs / real (length xs)"

definition median :: "real list \<Rightarrow> real" where
  "median xs =
     (let s = sort xs; n = length s
      in if even n then (s ! (n div 2 - 1) + s ! (n div 2)) / 2 else s ! (n div 2))"

definition std :: "real list \<Rightarrow> real" where
  "std xs = sqrt (mean (map (\<lambda>x. (x - mean xs)\<^sup>2) xs))"

text \<open>\<open>np.triu(values, k=1)\<close>: cells on or below the diagonal become 0.\<close>

definition triu1 :: "real list list \<Rightarrow> real list list" where
  "triu1 M =
     map (\<lambda>ir. map (\<lambda>jv. if fst ir < fst jv then snd jv else 0) (enumerate 0 (snd ir)))
         (enumerate 0 M)"

text \<open>\<open>upper_triangle[upper_triangle > 0]\<close>: the cells selected by the mask, row by row.\<close>

definition positive_cells :: "real list list \<Rightarrow> real list" where
  "positive_cells M = concat (map (filter (\<lambda>v. 0 < v)) M)"

record similarity_statistics =
  mean_similarity :: real
  median_similarity :: real
  std_similarity :: real
  min_similarity :: real
  max_similarity :: real
  high_similarity_pairs :: nat
  total_pairs :: nat

text \<open>
  \<open>get_similarity_statistics\<close>. On an empty selection \<open>np.min\<close> raises \<open>ValueError\<close>
  (the reductions before it only warn), so the call fails.
\<close>

definition get_similarity_statistics :: "similarity_calculator \<Rightarrow> error + similarity_statistics" where
  "get_similarity_statistics self =
     (case sc_similarity_matrix self of
        None \<Rightarrow> Inl (ValueError ''Similarity matrix not calculated yet. Call calculate_similarity_matrix() first.'')
      | Some m \<Rightarrow>
          (let upper_triangle = triu1 (sim_values m);
               similarities = positive_cells upper_triangle
           in case similarities of
                [] \<Rightarrow> Inl (ValueError ''zero-size array to reduction operation minimum which has no identity'')
              | x # r \<Rightarrow>
                  Inr \<lparr>mean_similarity = mean similarities,
                       median_similarity = median similarities,
                       std_similarity = std similarities,
                       min_similarity = fold min r x,
                       max_similarity = fold max r x,
                       high_similarity_pairs = length (filter (\<lambda>v. 0.5 < v) similarities),
                       total_pairs = length similarities\<rparr>))"

text \<open>
  The entries of the strict upper triangle, one per unordered pair of products: what the
  statistics are documented to range over.
\<close>

definition upper_triangle_values :: "real list list \<Rightarrow> real list" where
  "upper_triangle_values M =
     concat (map (\<lambda>i. map (\<lambda>j. M ! i ! j) [Suc i..<length M]) [0..<length M])"

text \<open>The position of a label in an index of distinct labels.\<close>

definition position :: "'a list \<Rightarrow> 'a \<Rightarrow> nat" where
  "position xs x = length (takeWhile (\<lambda>y. y \<noteq> x) xs)"

text \<open>\<open>similarity_matrix[product]\<close>: the column of a product as a labelled series.\<close>

definition sim_column :: "similarity_matrix \<Rightarrow> string \<Rightarrow> (string \<times> real) list" where
  "sim_column m product =
     zip (sim_index m) (map (\<lambda>r. r ! position (sim_index m) product) (sim_values m))"

definition get_most_similar_products ::
  "similarity_calculator \<Rightarrow> string \<Rightarrow> int \<Rightarrow> error + (string \<times> real) list" where
  "get_most_similar_products self product top_n =
     (case sc_similarity_matrix self of
        None \<Rightarrow> Inl (ValueError ''Similarity matrix not calculated yet. Call calculate_similarity_matrix() first.'')
      | Some m \<Rightarrow>
          if product \<notin> set (sim_index m)
          then Inl (ValueError (''Product '' @ product @ '' not found in similarity matrix''))
          else (let similarities = sort_values_desc snd (sim_column m product);
                    similarities = filter (\<lambda>e. fst e \<noteq> product) similarities
                in Inr (py_head top_n similarities)))"

subsection \<open>clustering_analyzer.py\<close>

definition determine_optimal_clusters :: "nat \<Rightarrow> nat" where
  "determine_optimal_clusters n_products =
     (if n_products \<le> 10 then 2
      else if n_products \<le> 50 then min 5 (n_products div 10)
      else if n_products \<le> 200 then min 8 (n_products div 25)
      else if n_products \<le> 1000 then min 12 (n_products div 50)
      else min 15 (n_products div 100))"

text \<open>
  The cluster count that \<open>perform_clustering\<close> hands to the clustering routine, for a
  distance matrix over \<open>n_products\<close> products.
\<close>

definition chosen_n_clusters :: "int option \<Rightarrow> real option \<Rightarrow> nat \<Rightarrow> int option" where
  "chosen_n_clusters n_clusters distance_threshold n_products =
     (if n_clusters = None \<and> distance_threshold = None
      then Some (int (determine_optimal_clusters n_products))
      else n_clusters)"

text \<open>The lookup table as the specification words it.\<close>

definition cluster_count_lookup :: "nat \<Rightarrow> nat" where
  "cluster_count_lookup n =
     (if n \<le> 10 then 2
      else if n \<le> 50 then min 5 (n div 10)
      else if n \<le> 200 then min 8 (n div 25)
      else if n \<le> 1000 then min 12 (n div 50)
      else min 15 (n div 100))"

text \<open>The band of the lookup a product count falls in.\<close>

definition band :: "nat \<Rightarrow> nat" where
  "band n = (if n \<le> 10 then 0 else if n \<le> 50 then 1 else if n \<le> 200 then 2
             else if n \<le> 1000 then 3 else 4)"

subsection \<open>recommendation_generator.py\<close>

text \<open>A row of the clustering result: a product and its cluster label.\<close>

record cluster_row =
  cr_StockCode :: string
  cr_Cluster :: int

text \<open>A row of the product-summary table.\<close>

record product_summary =
  ps_StockCode :: string
  Description :: string
  TotalQuantity :: int
  AvgUnitPrice :: real

text \<open>
  A recommendation dictionary. The \<open>explanation\<close> text is left out: it is a formatted
  sentence that no other field depends on.
\<close>

record recommendation =
  cluster_id :: int
  coherence_score :: real
  total_quantity_sold :: int
  avg_unit_price :: real
  recommendation_strength :: real
  products :: "(string \<times> string \<times> int) list"

text \<open>
  What the generator reads: the clustering analyzer's \<open>clusters\<close>, the similarity
  calculator's \<open>similarity_matrix\<close>, and its own \<open>product_info\<close>.
\<close>

record recommendation_generator =
  rg_clusters :: "cluster_row list option"
  rg_similarity_matrix :: "similarity_matrix option"
  rg_product_info :: "product_summary list option"

text \<open>\<open>similarity_matrix.loc[prod1, prod2]\<close> for labels that are in the index.\<close>

definition loc :: "similarity_matrix \<Rightarrow> string \<Rightarrow> string \<Rightarrow> real" where
  "loc m prod1 prod2 =
     sim_values m ! position (sim_index m) prod1 ! position (sim_index m) prod2"

text \<open>
  \<open>_calculate_cluster_coherence\<close>. With two or more codes the loop reaches \<open>i < j\<close> and
  reads \<open>similarity_matrix.index\<close>, which fails on \<open>None\<close>.
\<close>

definition coherence_similarities :: "similarity_matrix \<Rightarrow> string list \<Rightarrow> real list" where
  "coherence_similarities m stock_codes =
     concat (map (\<lambda>ip1.
        concat (map (\<lambda>jp2.
           if fst ip1 < fst jp2 \<and> snd ip1 \<in> set (sim_index m) \<and> snd jp2 \<in> set (sim_index m)
           then [loc m (snd ip1) (snd jp2)] else [])
          (enumerate 0 stock_codes)))
       (enumerate 0 stock_codes))"

definition calculate_cluster_coherence ::
  "recommendation_generator \<Rightarrow> string list \<Rightarrow> error + real" where
  "calculate_cluster_coherence self stock_codes =
     (if length stock_codes < 2 then Inr 0
      else case rg_similarity_matrix self of
             None \<Rightarrow> Inl AttributeError
           | Some m \<Rightarrow>
               (let similarities = coherence_similarities m stock_codes
                in Inr (if similarities \<noteq> [] then mean similarities else 0)))"

text \<open>The loop that fills \<open>recommendation['products']\<close>.\<close>

definition products_list ::
  "product_summary list option \<Rightarrow> string list \<Rightarrow> (string \<times> string \<times> int) list" where
  "products_list product_info cluster_stock_codes =
     concat (map (\<lambda>stock_code.
        case product_info of
          Some info \<Rightarrow>
            (case filter (\<lambda>r. ps_StockCode r = stock_code) info of
               [] \<Rightarrow> []
             | product_info0 # _ \<Rightarrow>
                 [(stock_code, Description product_info0, TotalQuantity product_info0)])
        | None \<Rightarrow> [(stock_code, ''N/A'', 0)])
       cluster_stock_codes)"

text \<open>The body of the loop for one cluster that passed the size test.\<close>

definition build_recommendation ::
  "recommendation_generator \<Rightarrow> int \<Rightarrow> cluster_row list \<Rightarrow> error + recommendation" where
  "build_recommendation self cid cluster_products =
     (let cluster_stock_codes = map cr_StockCode cluster_products
      in case calculate_cluster_coherence self cluster_stock_codes of
           Inl e \<Rightarrow> Inl e
         | Inr coherence \<Rightarrow>
             (let cluster_product_info =
                    (case rg_product_info self of
                       None \<Rightarrow> []
                     | Some info \<Rightarrow> filter (\<lambda>r. ps_StockCode r \<in> set cluster_stock_codes) info);
                  total_quantity = sum_list (map TotalQuantity cluster_product_info)
              in Inr \<lparr>cluster_id = cid,
                      coherence_score = coherence,
                      total_quantity_sold =
                        (if cluster_product_info \<noteq> [] then total_quantity else 0),
                      avg_unit_price =
                        (if cluster_product_info \<noteq> []
                         then mean (map AvgUnitPrice cluster_product_info) else 0),
                      recommendation_strength =
                        (if cluster_product_info \<noteq> []
                         then coherence * ln (real_of_int (total_quantity + 1))
                         else coherence),
                      products = products_list (rg_product_info self) cluster_stock_codes\<rparr>))"

text \<open>\<open>get_cluster_products\<close>: the rows of one cluster.\<close>

definition get_cluster_products :: "cluster_row list \<Rightarrow> int \<Rightarrow> cluster_row list" where
  "get_cluster_products clusters cid = filter (\<lambda>r. cr_Cluster r = cid) clusters"

definition in_window :: "cluster_row list \<Rightarrow> int \<Rightarrow> int \<Rightarrow> int \<Rightarrow> bool" where
  "in_window clusters min_cluster_size max_cluster_size cid =
     (min_cluster_size \<le> int (length (get_cluster_products clusters cid))
      \<and> int (length (get_cluster_products clusters cid)) \<le> max_cluster_size)"

text \<open>The cluster labels, in order of first appearance, whose size lies in the window.\<close>

definition window_clusters :: "cluster_row list \<Rightarrow> int \<Rightarrow> int \<Rightarrow> int list" where
  "window_clusters clusters min_cluster_size max_cluster_size =
     filter (in_window clusters min_cluster_size max_cluster_size)
            (unique (map cr_Cluster clusters))"

text \<open>
  The loop over \<open>clusters['Cluster'].unique()\<close>, appending one recommendation per
  cluster in the size window; an exception in a body ends the run.
\<close>

fun recommendations_loop ::
  "recommendation_generator \<Rightarrow> cluster_row list \<Rightarrow> int \<Rightarrow> int \<Rightarrow> int list
     \<Rightarrow> error + recommendation list" where
  "recommendations_loop self clusters mn mx [] = Inr []"
| "recommendations_loop self clusters mn mx (cid # rest) =
     (if in_window clusters mn mx cid
      then (case build_recommendation self cid (get_cluster_products clusters cid) of
              Inl e \<Rightarrow> Inl e
            | Inr r \<Rightarrow>
                (case recommendations_loop self clusters mn mx rest of
                   Inl e \<Rightarrow> Inl e
                 | Inr rs \<Rightarrow> Inr (r # rs)))
      else recommendations_loop self clusters mn mx rest)"

text \<open>
  \<open>generate_recommendations\<close>. The optional database save hands
  \<open>recommendations[:top_n]\<close> to an external handler and does not change the returned
  list; it is not modelled.
\<close>

definition generate_recommendations ::
  "recommendation_generator \<Rightarrow> int \<Rightarrow> int \<Rightarrow> int \<Rightarrow> error + recommendation list" where
  "generate_recommendations self top_n min_cluster_size max_cluster_size =
     (case rg_clusters self of
        None \<Rightarrow> Inl (ValueError ''Please perform clustering first'')
      | Some clusters \<Rightarrow>
          (case recommendations_loop self clusters min_cluster_size max_cluster_size
                  (unique (map cr_Cluster clusters)) of
             Inl e \<Rightarrow> Inl e
           | Inr recommendations \<Rightarrow>
               Inr (py_head top_n (sort_desc recommendation_strength recommendations))))"

definition crow :: "string \<Rightarrow> int \<Rightarrow> cluster_row" where
  "crow p c = \<lparr>cr_StockCode = p, cr_Cluster = c\<rparr>"

subsection \<open>The pipeline and the inputs of the worked examples\<close>

text \<open>Basket construction followed by the similarity computation, on fresh objects.\<close>

definition pipeline_similarity :: "transaction list \<Rightarrow> int \<Rightarrow> string \<Rightarrow> error + similarity_matrix" where
  "pipeline_similarity df min_support metric =
     (case create_market_baskets new_analyzer df min_support of
        Inl e \<Rightarrow> Inl e
      | Inr (bm, analyzer) \<Rightarrow> fst (calculate_similarity_matrix new_calculator bm metric))"

definition similarity_of :: "error + similarity_matrix \<Rightarrow> string \<Rightarrow> string \<Rightarrow> real option" where
  "similarity_of r p q =
     (case r of
        Inl e \<Rightarrow> None
      | Inr m \<Rightarrow> if p \<in> set (sim_index m) \<and> q \<in> set (sim_index m) then Some (loc m p q) else None)"

text \<open>One order that lists product A on two line items.\<close>

definition repeated_item_df :: "transaction list" where
  "repeated_item_df = [tx ''O1'' ''A'', tx ''O1'' ''A'']"

text \<open>One order with a single product.\<close>

definition single_item_df :: "transaction list" where
  "single_item_df = [tx ''O1'' ''A'']"

text \<open>Two baskets {A,B} and {C,D}: four of the six product pairs never co-occur.\<close>

definition disjoint_pairs_matrix :: basket_matrix where
  "disjoint_pairs_matrix =
     \<lparr>bm_columns = [''A'', ''B'', ''C'', ''D''],
      bm_rows = [[1, 1, 0, 0], [0, 0, 1, 1]]\<rparr>"

text \<open>One cluster {A,B}; the product table knows A only.\<close>

definition partial_info_generator :: recommendation_generator where
  "partial_info_generator =
     \<lparr>rg_clusters = Some [crow ''A'' 0, crow ''B'' 0],
      rg_similarity_matrix =
        Some \<lparr>sim_index = [''A'', ''B''], sim_values = [[1, 4 / 5], [4 / 5, 1]]\<rparr>,
      rg_product_info =
        Some [\<lparr>ps_StockCode = ''A'', Description = ''MUG'', TotalQuantity = 10, AvgUnitPrice = 2\<rparr>]\<rparr>"

text \<open>Two clusters of two products each, no product table.\<close>

definition two_cluster_generator :: recommendation_generator where
  "two_cluster_generator =
     \<lparr>rg_clusters = Some [crow ''A'' 0, crow ''B'' 0, crow ''C'' 1, crow ''D'' 1],
      rg_similarity_matrix =
        Some \<lparr>sim_index = [''A'', ''B'', ''C'', ''D''],
              sim_values = [[1, 1, 0, 0], [1, 1, 0, 0], [0, 0, 1, 1 / 2], [0, 0, 1 / 2, 1]]\<rparr>,
      rg_product_info = None\<rparr>"

text \<open>A calculator holding a three-product similarity matrix.\<close>

definition three_product_calculator :: similarity_calculator where
  "three_product_calculator =
     \<lparr>sc_similarity_matrix =
        Some \<lparr>sim_index = [''A'', ''B'', ''C''],
              sim_values = [[1, 1 / 2, 1 / 4], [1 / 2, 1, 0], [1 / 4, 0, 1]]\<rparr>,
      sc_basket_matrix = None\<rparr>"

section \<open>Verification\<close>

subsection \<open>Evaluation of the worked examples\<close>

lemmas basket_defs = frequent_products_def value_counts_def unique_def groupby_invoice_def
  basket_data_def all_products_def matrix_data_def create_market_baskets_def tx_def
  new_analyzer_def order_count_def Let_def

lemmas jaccard_defs = calculate_similarity_matrix_def calculate_jaccard_similarity_def
  pair_loop_def pair_step_def set_cell_def zeros_def jaccard_sim_def count_both_def
  count_either_def column_def new_calculator_def Let_def

lemma scenario_baskets:
  "create_market_baskets new_analyzer scenario_df 1 =
     Inr (scenario_matrix,
          \<lparr>mba_basket_matrix = Some scenario_matrix,
           mba_frequent_products = Some [''A'', ''B'', ''C'', ''D'']\<rparr>)"
  by (simp add: basket_defs scenario_df_def scenario_matrix_def)

lemma scenario_jaccard:
  "fst (calculate_similarity_matrix new_calculator scenario_matrix ''jaccard'') =
     Inr \<lparr>sim_index = [''A'', ''B'', ''C'', ''D''],
          sim_values = [[1, 1, 1 / 4, 0], [1, 1, 1 / 4, 0],
                        [1 / 4, 1 / 4, 1, 1 / 2], [0, 0, 1 / 2, 1]]\<rparr>"
  by (simp add: jaccard_defs scenario_matrix_def upt_rec numeral_nat)

lemma scenario_pipeline:
  "pipeline_similarity scenario_df 1 ''jaccard'' =
     Inr \<lparr>sim_index = [''A'', ''B'', ''C'', ''D''],
          sim_values = [[1, 1, 1 / 4, 0], [1, 1, 1 / 4, 0],
                        [1 / 4, 1 / 4, 1, 1 / 2], [0, 0, 1 / 2, 1]]\<rparr>"
  by (simp add: pipeline_similarity_def scenario_baskets scenario_jaccard)

lemma scenario_frequent: "set (frequent_products scenario_df 1) = {''A'', ''B'', ''C'', ''D''}"
  by (simp add: basket_defs scenario_df_def)

subsection \<open>Symmetry of the similarity matrix\<close>

lemma square_zeros: "square n (zeros n)"
  by (simp add: square_def zeros_def)

lemma symmetric_zeros: "symmetric_upto n (zeros n)"
  by (simp add: symmetric_upto_def zeros_def)

lemma set_cell_row:
  "a < length M \<Longrightarrow> set_cell M i j v ! a = (if a = i then (M ! i)[j := v] else M ! a)"
  by (cases "i < length M") (auto simp: set_cell_def nth_list_update)

lemma square_set_cell: "square n M \<Longrightarrow> square n (set_cell M i j v)"
proof -
  assume sq: "square n M"
  have len: "length (set_cell M i j v) = n"
    using sq by (simp add: square_def set_cell_def)
  have "length (set_cell M i j v ! a) = n" if "a < n" for a
    using sq that by (simp add: square_def set_cell_row)
  with len show ?thesis by (simp add: square_def)
qed

lemma set_cell_nth:
  assumes "square n M" "a < n" "b < n"
  shows "set_cell M i j v ! a ! b = (if a = i \<and> b = j then v else M ! a ! b)"
proof -
  have a: "a < length M" and b: "b < length (M ! a)"
    using assms by (simp_all add: square_def)
  show ?thesis
    using a b by (auto simp: set_cell_row nth_list_update)
qed

lemma mirrored_cells:
  "x = y \<Longrightarrow>
   (if a = j \<and> b = i then v else if a = i \<and> b = j then v else x) =
   (if b = j \<and> a = i then v else if b = i \<and> a = j then (v::real) else y)"
  by (cases "a = j"; cases "b = i"; cases "a = i"; cases "b = j"; simp)

text \<open>One step of the double loop keeps the matrix square and symmetric.\<close>

lemma pair_step_inv:
  assumes "square n M" "symmetric_upto n M"
  shows "square n (pair_step f i j M) \<and> symmetric_upto n (pair_step f i j M)"
proof (cases "i \<le> j")
  case False
  then show ?thesis using assms by (simp add: pair_step_def)
next
  case True
  let ?v = "f i j"
  let ?M1 = "set_cell M i j ?v"
  have sq1: "square n ?M1"
    using assms(1) by (rule square_set_cell)
  have sq2: "square n (set_cell ?M1 j i ?v)"
    using sq1 by (rule square_set_cell)
  have "symmetric_upto n (set_cell ?M1 j i ?v)"
    unfolding symmetric_upto_def
  proof (intro allI impI)
    fix a b assume ab: "a < n" "b < n"
    have sym: "M ! a ! b = M ! b ! a"
      using assms(2) ab by (simp add: symmetric_upto_def)
    have e1: "set_cell ?M1 j i ?v ! a ! b =
        (if a = j \<and> b = i then ?v else if a = i \<and> b = j then ?v else M ! a ! b)"
      by (simp only: set_cell_nth [OF sq1 ab] set_cell_nth [OF assms(1) ab])
    have e2: "set_cell ?M1 j i ?v ! b ! a =
        (if b = j \<and> a = i then ?v else if b = i \<and> a = j then ?v else M ! b ! a)"
      by (simp only: set_cell_nth [OF sq1 ab(2) ab(1)] set_cell_nth [OF assms(1) ab(2) ab(1)])
    show "set_cell ?M1 j i ?v ! a ! b = set_cell ?M1 j i ?v ! b ! a"
      unfolding e1 e2 using sym by (rule mirrored_cells)
  qed
  with sq2 True show ?thesis by (simp add: pair_step_def)
qed

lemma fold_inv:
  assumes "P s" "\<And>x s. P s \<Longrightarrow> P (g x s)"
  shows "P (fold g xs s)"
  using assms by (induction xs arbitrary: s) auto

lemma pair_loop_inv: "square n (pair_loop f n) \<and> symmetric_upto n (pair_loop f n)"
  unfolding pair_loop_def
proof (rule fold_inv)
  show "square n (zeros n) \<and> symmetric_upto n (zeros n)"
    by (simp add: square_zeros symmetric_zeros)
next
  fix i M
  assume inv: "square n M \<and> symmetric_upto n M"
  show "square n (fold (pair_step f i) [0..<n] M)
      \<and> symmetric_upto n (fold (pair_step f i) [0..<n] M)"
    using inv by (rule fold_inv) (simp add: pair_step_inv)
qed

lemma dot_commute: "dot xs ys = dot ys xs"
proof -
  have "map (\<lambda>ab. fst ab * snd ab) (zip xs ys) = map (\<lambda>ab. fst ab * snd ab) (zip ys xs)"
    by (induction xs ys rule: list_induct2') (simp_all add: mult.commute)
  then show ?thesis by (simp add: dot_def)
qed

lemma cosine_symmetric:
  "symmetric_upto (length (bm_columns bm)) (cosine_gram bm)"
  by (simp add: symmetric_upto_def cosine_gram_def Let_def dot_commute)

lemma cosine_square:
  "square (length (bm_columns bm)) (cosine_gram bm)"
  by (simp add: square_def cosine_gram_def Let_def)

text \<open>
  C1. For each of the metrics jaccard, cosine and lift, the matrix that
  \<open>calculate_similarity_matrix\<close> returns is indexed by the product columns, is square,
  and satisfies \<open>M[i][j] = M[j][i]\<close> for all product indices \<open>i\<close>, \<open>j\<close>. The call returns
  a matrix whenever the basket matrix has at least one basket and one product; without
  them only cosine (rejected by the library's input check) and lift on products without
  baskets (the support quotient divides by zero) fail.
\<close>

theorem similarity_matrix_symmetric:
  assumes "metric \<in> {''jaccard'', ''cosine'', ''lift''}"
  shows "case fst (calculate_similarity_matrix self bm metric) of
           Inr M \<Rightarrow> sim_index M = bm_columns bm
                    \<and> square (length (bm_columns bm)) (sim_values M)
                    \<and> symmetric_upto (length (bm_columns bm)) (sim_values M)
         | Inl e \<Rightarrow> metric \<noteq> ''jaccard'' \<and> (bm_columns bm = [] \<or> bm_rows bm = [])"
  using assms pair_loop_inv [of "length (bm_columns bm)"]
    cosine_symmetric [of bm] cosine_square [of bm]
  by (auto simp: calculate_similarity_matrix_def calculate_jaccard_similarity_def Let_def
      calculate_lift_similarity_def calculate_cosine_similarity_def split: if_splits)

theorem similarity_matrix_symmetric_witness:
  "''jaccard'' \<in> {''jaccard'', ''cosine'', ''lift''}
   \<and> symmetric_upto 4
       [[1, 1, 1 / 4, 0], [1, 1, 1 / 4, 0], [1 / 4, 1 / 4, 1, 1 / 2], [0, 0, 1 / 2, 1]]"
proof -
  have h: "''jaccard'' \<in> {''jaccard'', ''cosine'', ''lift''}" by simp
  have "length (bm_columns scenario_matrix) = 4"
    by (simp add: scenario_matrix_def)
  with similarity_matrix_symmetric [OF h, where self = new_calculator and bm = scenario_matrix]
  show ?thesis
    unfolding scenario_jaccard using h by simp
qed

subsection \<open>Basket construction\<close>

lemma set_unique: "set (unique xs) = set xs"
  by (simp add: unique_def)

lemma distinct_unique: "distinct (unique xs)"
  by (simp add: unique_def)

lemma set_value_counts: "set (value_counts xs) = (\<lambda>p. (p, count_list xs p)) ` set xs"
  by (simp add: value_counts_def set_unique)

lemma set_frequent_products:
  "set (frequent_products df ms) =
     {p \<in> set (map StockCode df). ms \<le> int (count_list (map StockCode df) p)}"
  unfolding frequent_products_def set_map set_filter set_value_counts
  by force

lemma distinct_map_sort_key: "distinct (map g (sort_key f ys)) = distinct (map g ys)"
  by (simp add: distinct_map)

lemma distinct_frequent_products: "distinct (frequent_products df ms)"
proof -
  have "distinct (map fst (value_counts (map StockCode df)))"
    unfolding value_counts_def distinct_map_sort_key
    by (simp add: comp_def distinct_unique)
  then show ?thesis
    unfolding frequent_products_def by (rule distinct_map_filter)
qed

lemma length_filter_partition:
  assumes "distinct ks" "f ` set xs \<subseteq> set ks"
  shows "length (filter Q xs) = sum_list (map (\<lambda>k. length (filter (\<lambda>r. Q r \<and> f r = k) xs)) ks)"
  using assms(2)
proof (induction xs)
  case Nil
  then show ?case by simp
next
  case (Cons x xs)
  then have fx: "f x \<in> set ks" and sub: "f ` set xs \<subseteq> set ks" by auto
  have one: "sum_list (map (\<lambda>k. if f x = k then (1::nat) else 0) ks) = 1"
    using assms(1) fx by (induction ks) auto
  have "sum_list (map (\<lambda>k. length (filter (\<lambda>r. Q r \<and> f r = k) (x # xs))) ks)
      = sum_list (map (\<lambda>k. (if Q x \<and> f x = k then 1 else 0)
                            + length (filter (\<lambda>r. Q r \<and> f r = k) xs)) ks)"
    by (intro arg_cong [where f = sum_list] map_cong) auto
  also have "\<dots> = sum_list (map (\<lambda>k. if Q x \<and> f x = k then 1 else 0) ks)
      + sum_list (map (\<lambda>k. length (filter (\<lambda>r. Q r \<and> f r = k) xs)) ks)"
    by (simp add: sum_list_addf)
  also have "sum_list (map (\<lambda>k. if Q x \<and> f x = k then (1::nat) else 0) ks) = (if Q x then 1 else 0)"
    using one by (cases "Q x") simp_all
  finally show ?case using Cons.IH [OF sub] by simp
qed


lemma groupby_keys:
  "distinct (sort (remdups (map InvoiceNo df)))"
  "InvoiceNo ` set df \<subseteq> set (sort (remdups (map InvoiceNo df)))"
  by simp_all

lemma count_list_filter: "count_list xs p = length (filter (\<lambda>x. x = p) xs)"
  by (induction xs) auto

lemma distinct_count_list: "distinct xs \<Longrightarrow> count_list xs p = (if p \<in> set xs then 1 else 0)"
  by (induction xs) auto

lemma sum_list_indicator:
  "sum_list (map (\<lambda>k. if P k then (1::nat) else 0) ks) = length (filter P ks)"
  by (induction ks) auto

text \<open>Without repeated line items, counting line items is counting orders.\<close>

lemma count_is_order_count:
  assumes "no_repeated_items df"
  shows "count_list (map StockCode df) p = order_count df p"
proof -
  let ?ks = "sort (remdups (map InvoiceNo df))"
  let ?group = "\<lambda>k. map StockCode (filter (\<lambda>r. InvoiceNo r = k) df)"
  have dist: "distinct (?group k)" if "k \<in> set ?ks" for k
    using assms that by (auto simp: no_repeated_items_def groupby_invoice_def list_all_iff)
  have "count_list (map StockCode df) p = length (filter (\<lambda>r. StockCode r = p) df)"
    by (simp add: count_list_filter filter_map comp_def)
  also have "\<dots> = sum_list (map (\<lambda>k. length (filter (\<lambda>r. StockCode r = p \<and> InvoiceNo r = k) df)) ?ks)"
    by (rule length_filter_partition) (rule groupby_keys)+
  also have "\<dots> = sum_list (map (\<lambda>k. if p \<in> set (?group k) then 1 else 0) ?ks)"
  proof (intro arg_cong [where f = sum_list] map_cong refl)
    fix k assume k: "k \<in> set ?ks"
    have "length (filter (\<lambda>r. StockCode r = p \<and> InvoiceNo r = k) df) = count_list (?group k) p"
      by (simp add: count_list_filter filter_map comp_def conj_commute)
    also have "\<dots> = (if p \<in> set (?group k) then 1 else 0)"
      using dist [OF k] by (rule distinct_count_list)
    finally show "length (filter (\<lambda>r. StockCode r = p \<and> InvoiceNo r = k) df)
        = (if p \<in> set (?group k) then 1 else 0)" .
  qed
  also have "\<dots> = length (filter (\<lambda>k. p \<in> set (?group k)) ?ks)"
    by (rule sum_list_indicator)
  also have "\<dots> = order_count df p"
    by (simp add: order_count_def groupby_invoice_def filter_map comp_def)
  finally show ?thesis .
qed

lemma set_cells_row:
  assumes "distinct ps" "distinct b" "set b \<subseteq> set ps"
  shows "set_cells (map (\<lambda>product. if product \<in> set b then 1 else 0) ps) = length b"
proof -
  have "set_cells (map (\<lambda>product. if product \<in> set b then 1 else 0) ps)
      = length (filter (\<lambda>p. p \<in> set b) ps)"
    by (simp add: set_cells_def filter_map comp_def)
  also have "\<dots> = card (set (filter (\<lambda>p. p \<in> set b) ps))"
    using distinct_card [of "filter (\<lambda>p. p \<in> set b) ps"] assms(1)
    by (simp only: distinct_filter)
  also have "set (filter (\<lambda>p. p \<in> set b) ps) = set b"
    using assms(3) by auto
  also have "card (set b) = length b"
    using assms(2) by (rule distinct_card)
  finally show ?thesis .
qed

text \<open>
  When no order lists a product twice, every column of the basket matrix is a product
  that appears in at least \<open>min_support\<close> orders and every row has at least two cells set.
\<close>

lemma basket_invariant_without_repeats:
  assumes "no_repeated_items df"
    and "create_market_baskets self df min_support = Inr (m, self')"
  shows "(\<forall>p \<in> set (bm_columns m). min_support \<le> int (order_count df p))
       \<and> (\<forall>row \<in> set (bm_rows m). length row = length (bm_columns m) \<and> 2 \<le> set_cells row)"
proof -
  have m: "bm_columns m = all_products df min_support" "bm_rows m = matrix_data df min_support"
    using assms(2) by (auto simp: create_market_baskets_def Let_def)
  have cols: "min_support \<le> int (order_count df p)" if "p \<in> set (bm_columns m)" for p
    using that count_is_order_count [OF assms(1), of p]
    by (simp add: m all_products_def set_frequent_products)
  have rows: "length row = length (bm_columns m) \<and> 2 \<le> set_cells row"
    if "row \<in> set (bm_rows m)" for row
  proof -
    from that obtain b where b: "b \<in> set (basket_data df min_support)"
      and row: "row = map (\<lambda>product. if product \<in> set (snd b) then 1 else 0)
                          (all_products df min_support)"
      by (auto simp: m matrix_data_def)
    from b obtain g where g: "g \<in> set (groupby_invoice df)"
      and sb: "snd b = filter (\<lambda>p. p \<in> set (frequent_products df min_support)) (snd g)"
      and len: "1 < length (snd b)"
      by (auto simp: basket_data_def)
    have "distinct (snd g)"
      using assms(1) g by (simp add: no_repeated_items_def list_all_iff)
    then have d: "distinct (snd b)" by (simp add: sb)
    have sub: "set (snd b) \<subseteq> set (all_products df min_support)"
      by (auto simp: sb all_products_def)
    have dp: "distinct (all_products df min_support)"
      by (simp add: all_products_def distinct_frequent_products)
    have "set_cells row = length (snd b)"
      unfolding row using dp d sub by (rule set_cells_row)
    with len show ?thesis by (simp add: row m)
  qed
  from cols rows show ?thesis by blast
qed

text \<open>
  C2. Every column of the basket matrix is a product that appears in at least
  \<open>min_support\<close> orders, and every row has at least two cells set, also when an order
  lists a product on several line items. Evaluated on one order that lists A twice, with
  \<open>min_support = 2\<close>: the line items are counted, not the orders, so A becomes a column
  although it appears in one order, and the basket [A, A] is kept as a row with a single
  cell set.
\<close>

theorem repeated_line_items_break_basket_invariant:
  "create_market_baskets new_analyzer repeated_item_df 2 =
     Inr (\<lparr>bm_columns = [''A''], bm_rows = [[1]]\<rparr>,
          \<lparr>mba_basket_matrix = Some \<lparr>bm_columns = [''A''], bm_rows = [[1]]\<rparr>,
           mba_frequent_products = Some [''A'']\<rparr>)
   \<and> order_count repeated_item_df ''A'' = 1
   \<and> set_cells [1] = 1"
  by (simp add: basket_defs repeated_item_df_def set_cells_def)

text \<open>
  C3, as the code computes it. On the orders O1={A,B}, O2={A,B,C}, O3={A,B}, O4={C,D}
  with \<open>min_support = 1\<close> the frequent products are {A,B,C,D}, jaccard(A,B) = 1,
  jaccard(A,C) = 1/4 and jaccard(C,D) = 1/2: C is in O2 and O4, D in O4 only.
\<close>

theorem scenario_jaccard_values:
  "set (frequent_products scenario_df 1) = {''A'', ''B'', ''C'', ''D''}
   \<and> similarity_of (pipeline_similarity scenario_df 1 ''jaccard'') ''A'' ''B'' = Some 1
   \<and> similarity_of (pipeline_similarity scenario_df 1 ''jaccard'') ''A'' ''C'' = Some (1 / 4)
   \<and> similarity_of (pipeline_similarity scenario_df 1 ''jaccard'') ''C'' ''D'' = Some (1 / 2)"
  by (simp add: scenario_frequent scenario_pipeline similarity_of_def loc_def position_def)

text \<open>C3 as stated, with jaccard(C,D) = 1, does not hold of the pipeline.\<close>

theorem scenario_jaccard_counterexample:
  "\<not> (set (frequent_products scenario_df 1) = {''A'', ''B'', ''C'', ''D''}
      \<and> similarity_of (pipeline_similarity scenario_df 1 ''jaccard'') ''A'' ''B'' = Some 1
      \<and> similarity_of (pipeline_similarity scenario_df 1 ''jaccard'') ''A'' ''C'' = Some (1 / 4)
      \<and> similarity_of (pipeline_similarity scenario_df 1 ''jaccard'') ''C'' ''D'' = Some 1)"
  by (simp add: scenario_pipeline similarity_of_def loc_def position_def)

lemma retained_line_items:
  "length (filter (\<lambda>p. p \<in> set (frequent_products df min_support))
                  (map StockCode (filter (\<lambda>r. InvoiceNo r = k) df)))
   = frequent_line_items df min_support k"
proof -
  have "filter (\<lambda>r. StockCode r \<in> set (frequent_products df min_support))
               (filter (\<lambda>r. InvoiceNo r = k) df)
      = filter (\<lambda>r. InvoiceNo r = k
                    \<and> min_support \<le> int (count_list (map StockCode df) (StockCode r))) df"
    unfolding filter_filter
    by (rule filter_cong) (auto simp: set_frequent_products)
  then show ?thesis
    by (simp add: frequent_line_items_def filter_map comp_def)
qed

lemma basket_data_empty:
  assumes "\<forall>r \<in> set df. frequent_line_items df min_support (InvoiceNo r) < 2"
  shows "basket_data df min_support = []"
proof -
  have "\<not> 1 < length (filter (\<lambda>p. p \<in> set (frequent_products df min_support)) (snd g))"
    if "g \<in> set (groupby_invoice df)" for g
  proof -
    from that obtain r where r: "r \<in> set df"
      and g: "snd g = map StockCode (filter (\<lambda>r'. InvoiceNo r' = InvoiceNo r) df)"
      by (auto simp: groupby_invoice_def)
    show ?thesis
      using assms r unfolding g retained_line_items by fastforce
  qed
  then show ?thesis
    by (auto simp: basket_data_def filter_empty_conv)
qed

text \<open>
  C4, as the code behaves. When no order keeps two or more line items after filtering to
  frequent products, \<open>create_market_baskets\<close> raises nothing: it returns, and stores, a
  basket matrix with the sorted frequent products as columns and no rows. Line items are
  counted as the code counts them, a product listed twice in an order counting twice.
\<close>

theorem no_surviving_basket_returns_empty_matrix:
  assumes "\<forall>r \<in> set df. frequent_line_items df min_support (InvoiceNo r) < 2"
  shows "create_market_baskets self df min_support =
     Inr (\<lparr>bm_columns = sort (frequent_products df min_support), bm_rows = []\<rparr>,
          self\<lparr>mba_basket_matrix :=
                  Some \<lparr>bm_columns = sort (frequent_products df min_support), bm_rows = []\<rparr>,
               mba_frequent_products := Some (frequent_products df min_support)\<rparr>)"
  using basket_data_empty [OF assms]
  by (simp add: create_market_baskets_def matrix_data_def all_products_def Let_def)

lemma single_item_retains_one:
  "\<forall>r \<in> set single_item_df. frequent_line_items single_item_df 1 (InvoiceNo r) < 2"
  by (simp add: single_item_df_def tx_def frequent_line_items_def)

theorem no_surviving_basket_returns_empty_matrix_witness:
  "set single_item_df = {tx ''O1'' ''A''}
   \<and> frequent_line_items single_item_df 1 (InvoiceNo (tx ''O1'' ''A'')) < 2
   \<and> create_market_baskets new_analyzer single_item_df 1 =
       Inr (\<lparr>bm_columns = sort (frequent_products single_item_df 1), bm_rows = []\<rparr>,
            new_analyzer\<lparr>mba_basket_matrix :=
                    Some \<lparr>bm_columns = sort (frequent_products single_item_df 1), bm_rows = []\<rparr>,
                 mba_frequent_products := Some (frequent_products single_item_df 1)\<rparr>)"
  using no_surviving_basket_returns_empty_matrix [OF single_item_retains_one, where self = new_analyzer]
  by (simp add: single_item_df_def tx_def frequent_line_items_def)

text \<open>
  C4 as stated fails on one order with a single product: no basket survives, and the
  call returns a matrix with column A and no rows instead of an error.
\<close>

theorem no_surviving_basket_counterexample:
  "frequent_line_items single_item_df 1 ''O1'' = 1
   \<and> create_market_baskets new_analyzer single_item_df 1 =
       Inr (\<lparr>bm_columns = [''A''], bm_rows = []\<rparr>,
            \<lparr>mba_basket_matrix = Some \<lparr>bm_columns = [''A''], bm_rows = []\<rparr>,
             mba_frequent_products = Some [''A'']\<rparr>)"
  by (simp add: basket_defs single_item_df_def frequent_line_items_def)

subsection \<open>Unknown metric\<close>

text \<open>
  C7, as the code behaves. A metric other than jaccard, cosine and lift makes
  \<open>calculate_similarity_matrix\<close> raise \<open>ValueError\<close> without computing any similarity;
  the stored similarity matrix is left as it was, and the stored basket matrix has
  already been replaced by the argument.
\<close>

theorem unknown_metric_raises:
  "metric \<notin> {''jaccard'', ''cosine'', ''lift''} \<Longrightarrow>
   calculate_similarity_matrix self bm metric =
     (Inl (ValueError (''Unknown similarity metric: '' @ metric)),
      self\<lparr>sc_basket_matrix := Some bm\<rparr>)"
  by (simp add: calculate_similarity_matrix_def)

theorem unknown_metric_raises_witness:
  "''euclidean'' \<notin> {''jaccard'', ''cosine'', ''lift''}
   \<and> calculate_similarity_matrix new_calculator scenario_matrix ''euclidean'' =
       (Inl (ValueError ''Unknown similarity metric: euclidean''),
        new_calculator\<lparr>sc_basket_matrix := Some scenario_matrix\<rparr>)"
proof -
  have h: "''euclidean'' \<notin> {''jaccard'', ''cosine'', ''lift''}" by simp
  show ?thesis
    using h unknown_metric_raises [OF h, where self = new_calculator and bm = scenario_matrix]
    by simp
qed

text \<open>
  C7 as stated fails on a fresh calculator: after the failed call with "euclidean" the
  calculator holds the basket matrix, which it did not before.
\<close>

theorem unknown_metric_state_counterexample:
  "fst (calculate_similarity_matrix new_calculator scenario_matrix ''euclidean'')
     = Inl (ValueError ''Unknown similarity metric: euclidean'')
   \<and> snd (calculate_similarity_matrix new_calculator scenario_matrix ''euclidean'')
       \<noteq> new_calculator
   \<and> sc_basket_matrix (snd (calculate_similarity_matrix new_calculator scenario_matrix ''euclidean''))
       = Some scenario_matrix
   \<and> sc_basket_matrix new_calculator = None"
  by (simp add: calculate_similarity_matrix_def new_calculator_def)

subsection \<open>Cluster-count heuristic\<close>

lemma determine_optimal_clusters_lookup:
  "determine_optimal_clusters n = cluster_count_lookup n"
  by (simp add: determine_optimal_clusters_def cluster_count_lookup_def)

lemma determine_optimal_clusters_mono_in_band:
  "m \<le> n \<Longrightarrow> band m = band n \<Longrightarrow>
   determine_optimal_clusters m \<le> determine_optimal_clusters n"
  unfolding determine_optimal_clusters_def band_def
  by (simp split: if_splits add: div_le_mono min.coboundedI2)

text \<open>
  C5, as the code behaves. With neither a cluster count nor a distance threshold given,
  the count chosen for \<open>n\<close> products is the lookup \<open>n \<le> 10 \<rightarrow> 2\<close>, \<open>n \<le> 50 \<rightarrow> min(5, n/10)\<close>,
  \<open>n \<le> 200 \<rightarrow> min(8, n/25)\<close>, \<open>n \<le> 1000 \<rightarrow> min(12, n/50)\<close>, else \<open>min(15, n/100)\<close>; it is
  non-decreasing in \<open>n\<close> inside each of the five bands.
\<close>

theorem cluster_count_lookup_banded:
  assumes "m \<le> n" and "band m = band n"
  shows "chosen_n_clusters None None n = Some (int (cluster_count_lookup n))
       \<and> determine_optimal_clusters m \<le> determine_optimal_clusters n"
  using determine_optimal_clusters_mono_in_band [OF assms]
  by (simp add: chosen_n_clusters_def determine_optimal_clusters_lookup)

theorem cluster_count_lookup_banded_witness:
  "(20::nat) \<le> 40 \<and> band 20 = band 40
   \<and> chosen_n_clusters None None 40 = Some 4
   \<and> determine_optimal_clusters 20 = 2 \<and> determine_optimal_clusters 40 = 4"
proof -
  have h1: "(20::nat) \<le> 40" by simp
  have h2: "band 20 = band 40" by (simp add: band_def)
  show ?thesis
    using h1 h2 cluster_count_lookup_banded [OF h1 h2]
    by (simp add: cluster_count_lookup_def determine_optimal_clusters_def)
qed

text \<open>
  C5 as stated fails across a band boundary: 10 products get 2 clusters, 11 products
  get 1.
\<close>

theorem cluster_count_not_monotone_counterexample:
  "(10::nat) \<le> 11
   \<and> chosen_n_clusters None None 10 = Some 2
   \<and> chosen_n_clusters None None 11 = Some 1
   \<and> \<not> determine_optimal_clusters 10 \<le> determine_optimal_clusters 11"
  by (simp add: chosen_n_clusters_def determine_optimal_clusters_def)

subsection \<open>Similarity statistics\<close>

lemma disjoint_pairs_jaccard:
  "snd (calculate_similarity_matrix new_calculator disjoint_pairs_matrix ''jaccard'') =
     \<lparr>sc_similarity_matrix = Some \<lparr>sim_index = [''A'', ''B'', ''C'', ''D''],
          sim_values = [[1, 1, 0, 0], [1, 1, 0, 0], [0, 0, 1, 1], [0, 0, 1, 1]]\<rparr>,
      sc_basket_matrix = Some disjoint_pairs_matrix\<rparr>"
  by (simp add: jaccard_defs disjoint_pairs_matrix_def upt_rec numeral_nat)

text \<open>
  C8. The statistics range over every entry of the strict upper triangle, pairs of
  similarity 0 included. Evaluated after a Jaccard run on the baskets {A,B} and {C,D}:
  the upper triangle holds the six values 1, 0, 0, 0, 0, 1 with mean 1/3 and minimum 0,
  but the mask \<open>upper_triangle > 0\<close> keeps only the two values 1, so the call reports
  mean 1, minimum 1 and 2 pairs in total.
\<close>

theorem statistics_skip_zero_similarities:
  "get_similarity_statistics
     (snd (calculate_similarity_matrix new_calculator disjoint_pairs_matrix ''jaccard''))
   = Inr \<lparr>mean_similarity = 1, median_similarity = 1, std_similarity = 0,
          min_similarity = 1, max_similarity = 1, high_similarity_pairs = 2, total_pairs = 2\<rparr>
   \<and> upper_triangle_values [[1, 1, 0, 0], [1, 1, 0, 0], [0, 0, 1, 1], [0, 0, 1, 1]]
       = [1, 0, 0, 0, 0, 1]
   \<and> mean [1, 0, 0, 0, 0, 1] = 1 / 3"
  unfolding disjoint_pairs_jaccard
  by (simp add: get_similarity_statistics_def triu1_def positive_cells_def mean_def median_def
      std_def enumerate_eq_zip upper_triangle_values_def upt_rec numeral_nat)

subsection \<open>Sorting and truncation\<close>

lemma sorted_desc_sort_desc: "sorted_desc (map k (sort_desc k xs))"
  using sorted_sort_key [of "\<lambda>x. - k x" xs]
  by (simp add: sorted_desc_def sort_desc_def comp_def)

lemma sorted_desc_rev: "sorted zs \<Longrightarrow> sorted_desc (rev zs)"
  unfolding sorted_desc_def
  by (induction zs) (auto simp: sorted_append)

lemma sorted_desc_sort_values_desc: "sorted_desc (map k (sort_values_desc k xs))"
  using sorted_desc_rev [OF sorted_sort_key [of k xs]]
  by (simp add: sort_values_desc_def rev_map)

lemma sorted_desc_filter: "sorted_desc (map k xs) \<Longrightarrow> sorted_desc (map k (filter P xs))"
  using sorted_filter [of "\<lambda>x. - k x" xs P]
  by (simp add: sorted_desc_def comp_def)

lemma sorted_desc_py_head: "sorted_desc (map k xs) \<Longrightarrow> sorted_desc (map k (py_head n xs))"
  by (simp add: sorted_desc_def py_head_def take_map [symmetric] sorted_wrt_take del: take_map)

lemma length_py_head: "0 \<le> n \<Longrightarrow> int (length (py_head n xs)) \<le> n"
  by (simp add: py_head_def)

lemma set_py_head: "set (py_head n xs) \<subseteq> set xs"
  by (auto simp: py_head_def dest: in_set_takeD)

lemma py_head_all: "int (length xs) \<le> n \<Longrightarrow> py_head n xs = xs"
  by (simp add: py_head_def)

subsection \<open>Most similar products\<close>

lemmas most_similar_defs = get_most_similar_products_def three_product_calculator_def
  sim_column_def position_def sort_values_desc_def py_head_def

text \<open>
  C10. \<open>get_most_similar_products\<close> raises \<open>ValueError\<close> when the product is not in
  the index of the similarity matrix (or when no matrix has been computed), and returns a
  series only when the product is in the index. For a count \<open>top_n \<ge> 0\<close> the returned
  series does not contain the product itself, is in descending order of similarity and
  has at most \<open>top_n\<close> entries.
\<close>

theorem most_similar_products_contract:
  assumes "0 \<le> top_n"
  shows "case get_most_similar_products self product top_n of
     Inl e \<Rightarrow>
       (case sc_similarity_matrix self of
          None \<Rightarrow> True
        | Some m \<Rightarrow> product \<notin> set (sim_index m)
                    \<and> e = ValueError (''Product '' @ product @ '' not found in similarity matrix''))
   | Inr s \<Rightarrow>
       (case sc_similarity_matrix self of
          None \<Rightarrow> False
        | Some m \<Rightarrow> product \<in> set (sim_index m))
       \<and> product \<notin> fst ` set s
       \<and> sorted_desc (map snd s)
       \<and> int (length s) \<le> top_n"
proof (cases "sc_similarity_matrix self")
  case None
  then show ?thesis by (simp add: get_most_similar_products_def)
next
  case (Some m)
  show ?thesis
  proof (cases "product \<in> set (sim_index m)")
    case False
    with Some show ?thesis by (simp add: get_most_similar_products_def)
  next
    case True
    let ?xs = "filter (\<lambda>e. fst e \<noteq> product) (sort_values_desc snd (sim_column m product))"
    have r: "get_most_similar_products self product top_n = Inr (py_head top_n ?xs)"
      using Some True by (simp add: get_most_similar_products_def Let_def)
    have "product \<notin> fst ` set ?xs" by auto
    then have a: "product \<notin> fst ` set (py_head top_n ?xs)"
      using set_py_head [of top_n ?xs] by blast
    have b: "sorted_desc (map snd (py_head top_n ?xs))"
      by (intro sorted_desc_py_head sorted_desc_filter sorted_desc_sort_values_desc)
    show ?thesis
      using Some True a b assms by (simp add: r length_py_head)
  qed
qed

theorem most_similar_products_contract_witness:
  "(0::int) \<le> 1
   \<and> get_most_similar_products three_product_calculator ''A'' 1 = Inr [(''B'', 1 / 2)]
   \<and> get_most_similar_products three_product_calculator ''Z'' 1
       = Inl (ValueError ''Product Z not found in similarity matrix'')
   \<and> int (length [(''B'', 1 / 2 :: real)]) \<le> 1"
proof -
  have h: "(0::int) \<le> 1" by simp
  show ?thesis
    using h most_similar_products_contract
      [OF h, where self = three_product_calculator and product = "''A''"]
    by (simp add: most_similar_defs)
qed

subsection \<open>Recommendations\<close>

lemma build_recommendation_cluster_id:
  "build_recommendation self cid cp = Inr r \<Longrightarrow> cluster_id r = cid"
  by (auto simp: build_recommendation_def Let_def split: sum.splits)

lemma build_recommendation_error:
  "build_recommendation self cid cp = Inl e \<Longrightarrow> rg_similarity_matrix self = None"
  by (auto simp: build_recommendation_def calculate_cluster_coherence_def Let_def
      split: sum.splits if_splits option.splits)

text \<open>The loop appends one recommendation for each cluster in the window, in order.\<close>

lemma recommendations_loop_ids:
  "recommendations_loop self clusters mn mx ids = Inr recs \<Longrightarrow>
   map cluster_id recs = filter (in_window clusters mn mx) ids"
proof (induction ids arbitrary: recs)
  case Nil
  then show ?case by simp
next
  case (Cons cid rest)
  show ?case
  proof (cases "in_window clusters mn mx cid")
    case False
    with Cons show ?thesis by simp
  next
    case True
    with Cons.prems obtain r rs where
      r: "build_recommendation self cid (get_cluster_products clusters cid) = Inr r" and
      rs: "recommendations_loop self clusters mn mx rest = Inr rs" and
      recs: "recs = r # rs"
      by (auto split: sum.splits)
    from Cons.IH [OF rs] build_recommendation_cluster_id [OF r] True recs
    show ?thesis by simp
  qed
qed

lemma recommendations_loop_error:
  "recommendations_loop self clusters mn mx ids = Inl e \<Longrightarrow> rg_similarity_matrix self = None"
proof (induction ids)
  case Nil
  then show ?case by simp
next
  case (Cons cid rest)
  then show ?case
    by (auto split: if_splits sum.splits dest: build_recommendation_error)
qed

lemmas generator_defs = generate_recommendations_def unique_def crow_def in_window_def
  get_cluster_products_def build_recommendation_def calculate_cluster_coherence_def
  coherence_similarities_def loc_def position_def mean_def products_list_def
  sort_desc_def py_head_def enumerate_eq_zip Let_def

text \<open>
  C6. For a count \<open>top_n \<ge> 0\<close>, \<open>generate_recommendations\<close> fails only when no
  clustering or no similarity matrix is available. Otherwise its loop builds one
  recommendation for exactly the clusters whose member count lies in the inclusive window
  \<open>[min_cluster_size, max_cluster_size]\<close>, and the returned list is the first \<open>top_n\<close> of
  them in descending order of recommendation strength: it is sorted descending, has at most
  \<open>top_n\<close> entries, holds each cluster at most once and only clusters of the window, and
  holds every cluster of the window when \<open>top_n\<close> is at least their number.
\<close>

theorem recommendations_window_sorted_truncated:
  assumes "0 \<le> top_n"
  shows "case generate_recommendations self top_n min_cluster_size max_cluster_size of
     Inl e \<Rightarrow> rg_clusters self = None \<or> rg_similarity_matrix self = None
   | Inr result \<Rightarrow>
       (case rg_clusters self of
          None \<Rightarrow> False
        | Some clusters \<Rightarrow>
            (\<exists>recommendations.
                recommendations_loop self clusters min_cluster_size max_cluster_size
                    (unique (map cr_Cluster clusters)) = Inr recommendations
              \<and> map cluster_id recommendations
                    = window_clusters clusters min_cluster_size max_cluster_size
              \<and> result = take (nat top_n)
                             (sort_desc recommendation_strength recommendations))
            \<and> sorted_desc (map recommendation_strength result)
            \<and> int (length result) \<le> top_n
            \<and> distinct (map cluster_id result)
            \<and> set (map cluster_id result)
                 \<subseteq> set (window_clusters clusters min_cluster_size max_cluster_size)
            \<and> (int (length (window_clusters clusters min_cluster_size max_cluster_size)) \<le> top_n
                 \<longrightarrow> set (map cluster_id result)
                     = set (window_clusters clusters min_cluster_size max_cluster_size)))"
proof (cases "rg_clusters self")
  case None
  then show ?thesis by (simp add: generate_recommendations_def)
next
  case (Some clusters)
  let ?mn = min_cluster_size and ?mx = max_cluster_size
  let ?ids = "unique (map cr_Cluster clusters)"
  show ?thesis
  proof (cases "recommendations_loop self clusters ?mn ?mx ?ids")
    case (Inl e)
    with Some recommendations_loop_error [OF Inl] show ?thesis
      by (simp add: generate_recommendations_def)
  next
    case (Inr recs)
    let ?sorted = "sort_desc recommendation_strength recs"
    have res: "generate_recommendations self top_n ?mn ?mx = Inr (py_head top_n ?sorted)"
      using Some Inr by (simp add: generate_recommendations_def)
    have ids: "map cluster_id recs = window_clusters clusters ?mn ?mx"
      using recommendations_loop_ids [OF Inr] by (simp add: window_clusters_def)
    have dist: "distinct (map cluster_id recs)"
      by (simp add: ids window_clusters_def distinct_unique)
    have len: "length recs = length (window_clusters clusters ?mn ?mx)"
      using ids by (metis length_map)
    have s1: "sorted_desc (map recommendation_strength (py_head top_n ?sorted))"
      by (intro sorted_desc_py_head sorted_desc_sort_desc)
    have dsorted: "distinct (map cluster_id ?sorted)"
      using dist by (simp add: sort_desc_def distinct_map inj_on_def)
    have s2: "distinct (map cluster_id (py_head top_n ?sorted))"
      using dsorted by (simp add: py_head_def take_map [symmetric] del: take_map)
    have setsorted: "set ?sorted = set recs"
      by (simp add: sort_desc_def)
    have s3: "set (map cluster_id (py_head top_n ?sorted))
        \<subseteq> set (window_clusters clusters ?mn ?mx)"
      using set_py_head [of top_n ?sorted] setsorted ids [symmetric] by auto
    have s4: "int (length (py_head top_n ?sorted)) \<le> top_n"
      using assms by (rule length_py_head)
    have s0: "py_head top_n ?sorted = take (nat top_n) ?sorted"
      using assms by (simp add: py_head_def)
    have s5: "int (length (window_clusters clusters ?mn ?mx)) \<le> top_n \<longrightarrow>
        set (map cluster_id (py_head top_n ?sorted)) = set (window_clusters clusters ?mn ?mx)"
    proof
      assume "int (length (window_clusters clusters ?mn ?mx)) \<le> top_n"
      then have "py_head top_n ?sorted = ?sorted"
        using len by (simp add: py_head_all sort_desc_def)
      then show "set (map cluster_id (py_head top_n ?sorted))
          = set (window_clusters clusters ?mn ?mx)"
        using setsorted ids [symmetric] by simp
    qed
    have s6: "\<exists>recommendations.
        recommendations_loop self clusters ?mn ?mx ?ids = Inr recommendations
        \<and> map cluster_id recommendations = window_clusters clusters ?mn ?mx
        \<and> py_head top_n ?sorted
            = take (nat top_n) (sort_desc recommendation_strength recommendations)"
      using Inr ids s0 by blast
    show ?thesis
      unfolding res using Some s1 s2 s3 s4 s5 s6 by simp
  qed
qed

lemma two_cluster_window:
  "window_clusters [crow ''A'' 0, crow ''B'' 0, crow ''C'' 1, crow ''D'' 1] 2 100 = [0, 1]"
  by (simp add: window_clusters_def generator_defs)

theorem recommendations_window_sorted_truncated_witness:
  "(0::int) \<le> 2
   \<and> generate_recommendations two_cluster_generator 2 2 100 =
     Inr [\<lparr>cluster_id = 0, coherence_score = 1, total_quantity_sold = 0, avg_unit_price = 0,
           recommendation_strength = 1,
           products = [(''A'', ''N/A'', 0), (''B'', ''N/A'', 0)]\<rparr>,
          \<lparr>cluster_id = 1, coherence_score = 1 / 2, total_quantity_sold = 0, avg_unit_price = 0,
           recommendation_strength = 1 / 2,
           products = [(''C'', ''N/A'', 0), (''D'', ''N/A'', 0)]\<rparr>]
   \<and> int (length (window_clusters [crow ''A'' 0, crow ''B'' 0, crow ''C'' 1, crow ''D'' 1] 2 100)) \<le> 2
   \<and> sorted_desc [1, 1 / 2]"
proof -
  have h: "(0::int) \<le> 2" by simp
  have g: "generate_recommendations two_cluster_generator 2 2 100 =
     Inr [\<lparr>cluster_id = 0, coherence_score = 1, total_quantity_sold = 0, avg_unit_price = 0,
           recommendation_strength = 1,
           products = [(''A'', ''N/A'', 0), (''B'', ''N/A'', 0)]\<rparr>,
          \<lparr>cluster_id = 1, coherence_score = 1 / 2, total_quantity_sold = 0, avg_unit_price = 0,
           recommendation_strength = 1 / 2,
           products = [(''C'', ''N/A'', 0), (''D'', ''N/A'', 0)]\<rparr>]"
    by (simp add: generator_defs two_cluster_generator_def upt_rec numeral_nat)
  have c: "rg_clusters two_cluster_generator
      = Some [crow ''A'' 0, crow ''B'' 0, crow ''C'' 1, crow ''D'' 1]"
    by (simp add: two_cluster_generator_def)
  show ?thesis
    using h recommendations_window_sorted_truncated
      [OF h, where self = two_cluster_generator and min_cluster_size = 2
         and max_cluster_size = 100]
    by (simp add: g c two_cluster_window sorted_desc_def)
qed

text \<open>
  C9. The products list of a recommendation has one entry per cluster member, with
  "N/A" and 0 when the member has no metadata. Evaluated on the cluster {A,B} with a
  product table that knows A only: the list holds the entry of A and nothing for B. The
  "N/A" entry is written only when no product table is set at all; a member missing from a
  table that is set is skipped.
\<close>

theorem member_without_metadata_is_dropped:
  "generate_recommendations partial_info_generator 10 2 100 =
     Inr [\<lparr>cluster_id = 0, coherence_score = 4 / 5, total_quantity_sold = 10, avg_unit_price = 2,
           recommendation_strength = 4 / 5 * ln 11,
           products = [(''A'', ''MUG'', 10)]\<rparr>]"
  by (simp add: generator_defs partial_info_generator_def upt_rec numeral_nat)

end
